theory Spec2Isabelle
  imports Complex_Main "HOL-Library.Word"
begin

unbundle bit_operations_syntax

section \<open>C types of cp2112_demo.c\<close>

text \<open>
  The program is one C file, \<^verbatim>\<open>demo_to_convert/src/cp2112_demo.c\<close>, built for Windows:
  \<^verbatim>\<open>BYTE\<close> and \<^verbatim>\<open>UINT8\<close> are 8 bits, \<^verbatim>\<open>WORD\<close>, \<^verbatim>\<open>UINT16\<close> and \<^verbatim>\<open>INT16\<close> are 16 bits and
  \<^verbatim>\<open>int\<close> is 32 bits. A signed variable is a word that is read through \<open>sint\<close>.

  A \<^verbatim>\<open>float\<close> is modelled by the rational number it holds. Every float the program
  computes is \<open>k / 32\<close> or \<open>k / 32 - 40\<close> for a 16-bit integer \<open>k\<close>, or \<open>600 * 32\<close>;
  each of them is a multiple of \<open>1 / 32\<close> below \<open>2 ^ 17\<close> in magnitude, which the 24-bit
  significand of a binary32 float holds exactly, so no operation of the program rounds.
\<close>

type_synonym BYTE = "8 word"
type_synonym UINT8 = "8 word"
type_synonym WORD = "16 word"
type_synonym UINT16 = "16 word"
type_synonym INT16 = "16 word"
type_synonym c_int = "32 word"
type_synonym c_float = rat

text \<open>The integer promotions and conversions that the expressions of \<^verbatim>\<open>main\<close> go through.\<close>

definition int_of_BYTE :: "BYTE \<Rightarrow> c_int" where
  "int_of_BYTE b = ucast b"

definition int_of_INT16 :: "INT16 \<Rightarrow> c_int" where
  "int_of_INT16 v = scast v"

definition int_of_UINT16 :: "UINT16 \<Rightarrow> c_int" where
  "int_of_UINT16 v = ucast v"

definition INT16_of_int :: "c_int \<Rightarrow> INT16" where
  "INT16_of_int i = ucast i"

definition UINT8_of_int :: "c_int \<Rightarrow> UINT8" where
  "UINT8_of_int i = ucast i"

definition float_of_INT16 :: "INT16 \<Rightarrow> c_float" where
  "float_of_INT16 v = of_int (sint v)"

text \<open>
  A float converted to an integer type loses its fraction (truncation towards zero). C
  defines the conversion only when the truncated value fits the type; otherwise the
  behaviour is undefined, and builds of the program differ (one keeps the low bits, an
  optimised one yields 0xFF for \<^verbatim>\<open>(UINT8)19200.0f\<close>). What a build yields for a value that
  does not fit is therefore an input of the model, \<open>float_casts\<close>.
\<close>

definition c_trunc :: "c_float \<Rightarrow> int" where
  "c_trunc x = (if 0 \<le> x then \<lfloor>x\<rfloor> else - \<lfloor>- x\<rfloor>)"

record float_casts =
  UINT8_unfit :: "c_float \<Rightarrow> UINT8"
  UINT16_unfit :: "c_float \<Rightarrow> UINT16"

definition UINT8_of_float :: "float_casts \<Rightarrow> c_float \<Rightarrow> UINT8" where
  "UINT8_of_float u x =
     (if 0 \<le> c_trunc x \<and> c_trunc x < 256 then word_of_int (c_trunc x) else UINT8_unfit u x)"

definition UINT16_of_float :: "float_casts \<Rightarrow> c_float \<Rightarrow> UINT16" where
  "UINT16_of_float u x =
     (if 0 \<le> c_trunc x \<and> c_trunc x < 65536 then word_of_int (c_trunc x) else UINT16_unfit u x)"

text \<open>The build that yields the largest value of the type for a value that does not fit.\<close>

definition saturating_casts :: float_casts where
  "saturating_casts = \<lparr>UINT8_unfit = (\<lambda>x. 0xFF), UINT16_unfit = (\<lambda>x. 0xFFFF)\<rparr>"

section \<open>Register decode and encode\<close>

text \<open>
  Lines 79-80 (and 92-93, 135-136, 153-154, 166-167, 179-180, 192-193, 205-206, 218-219,
  231-232, 243-244), with \<open>b0 = buffer[0]\<close> and \<open>b1 = buffer[1]\<close>:
  \<^verbatim>\<open>X_raw = (buffer[1] << 8) | buffer[0];  X_raw = X_raw & 0xFFFF;\<close>
  where \<^verbatim>\<open>X_raw\<close> is an \<^verbatim>\<open>INT16\<close>.
\<close>

definition assemble_raw :: "BYTE \<Rightarrow> BYTE \<Rightarrow> INT16" where
  "assemble_raw b0 b1 =
     (let X_raw = INT16_of_int (push_bit 8 (int_of_BYTE b1) OR int_of_BYTE b0)
      in INT16_of_int (int_of_INT16 X_raw AND 0xFFFF))"

text \<open>Lines 94, 137, 181, 194, 207, 220: \<^verbatim>\<open>X = X_raw / 32.0f\<close>.\<close>

definition decode_voltage_or_current :: "INT16 \<Rightarrow> c_float" where
  "decode_voltage_or_current X_raw = float_of_INT16 X_raw / 32"

text \<open>Lines 155, 168: \<^verbatim>\<open>X_C = X_raw / 32.0f - 40.0f\<close>.\<close>

definition decode_temperature :: "INT16 \<Rightarrow> c_float" where
  "decode_temperature X_raw = float_of_INT16 X_raw / 32 - 40"

text \<open>
  Lines 113-114, the two payload bytes of the setpoint write:
  \<^verbatim>\<open>buffer[1] = ((UINT8)(HWOCP_A*32)&0xff);\<close>
  \<^verbatim>\<open>buffer[2] = (UINT8)(((UINT16)(HWOCP_A*32)>>8)&0xff);\<close>
  In line 113 the cast binds tighter than the mask: the float goes to \<^verbatim>\<open>UINT8\<close> first.
  Line 114 goes through \<^verbatim>\<open>UINT16\<close>.
\<close>

definition encode_ocp_setpoint :: "float_casts \<Rightarrow> c_float \<Rightarrow> BYTE \<times> BYTE" where
  "encode_ocp_setpoint u HWOCP_A =
     (UINT8_of_int (int_of_BYTE (UINT8_of_float u (HWOCP_A * 32)) AND 0xff),
      UINT8_of_int (drop_bit 8 (int_of_UINT16 (UINT16_of_float u (HWOCP_A * 32))) AND 0xff))"

text \<open>The setpoint bytes as the device would send them back, decoded by lines 135-137.\<close>

definition ocp_round_trip :: "float_casts \<Rightarrow> c_float \<Rightarrow> c_float" where
  "ocp_round_trip u amps =
     (case encode_ocp_setpoint u amps of
        (lo, hi) \<Rightarrow> decode_voltage_or_current (assemble_raw lo hi))"

section \<open>The C library's printf conversions\<close>

text \<open>
  The conversions that the format strings of \<^verbatim>\<open>main\<close> use, after the C standard:
  \<^verbatim>\<open>%d\<close>, \<^verbatim>\<open>%x\<close>, \<^verbatim>\<open>%02X\<close> and \<^verbatim>\<open>%2.2f\<close>. An \<^verbatim>\<open>INT16\<close> or \<^verbatim>\<open>BYTE\<close> argument reaches
  \<^verbatim>\<open>fprintf\<close> promoted to \<^verbatim>\<open>int\<close>, a \<^verbatim>\<open>float\<close> promoted to \<^verbatim>\<open>double\<close> (the same number).
\<close>

definition CRLF :: string where
  "CRLF = [CHR 0x0D, CHR 0x0A]"

definition LF :: string where
  "LF = [CHR 0x0A]"

definition digit_of :: "nat \<Rightarrow> char" where
  "digit_of d = ''0123456789abcdef'' ! d"

definition upper_digit_of :: "nat \<Rightarrow> char" where
  "upper_digit_of d = ''0123456789ABCDEF'' ! d"

fun decimal :: "nat \<Rightarrow> string" where
  "decimal n = (if n < 10 then [digit_of n] else decimal (n div 10) @ [digit_of (n mod 10)])"

fun hexadecimal :: "(nat \<Rightarrow> char) \<Rightarrow> nat \<Rightarrow> string" where
  "hexadecimal dg n =
     (if n < 16 then [dg n] else hexadecimal dg (n div 16) @ [dg (n mod 16)])"

declare decimal.simps [simp del]
declare hexadecimal.simps [simp del]

definition printf_d :: "c_int \<Rightarrow> string" where
  "printf_d i = (if sint i < 0 then ''-'' @ decimal (nat (- sint i)) else decimal (nat (sint i)))"

definition printf_x :: "c_int \<Rightarrow> string" where
  "printf_x i = hexadecimal digit_of (unat i)"

definition printf_02X :: "c_int \<Rightarrow> string" where
  "printf_02X i =
     (let h = hexadecimal upper_digit_of (unat i) in replicate (2 - length h) CHR ''0'' @ h)"

text \<open>
  \<^verbatim>\<open>%2.2f\<close> prints the decimal number with two digits after the point that is nearest to
  the argument. A multiple of 1/32 can lie exactly between two of them (0.125); the C
  libraries differ there, so the rule for ties is a parameter of the model.
\<close>

datatype tie_rule = TiesToEven | TiesAwayFromZero

definition round_hundredths :: "tie_rule \<Rightarrow> c_float \<Rightarrow> nat" where
  "round_hundredths t x =
     (let y = x * 100; f = nat \<lfloor>y\<rfloor>; d = y - of_nat f
      in if d < 1 / 2 then f
         else if 1 / 2 < d then f + 1
         else (case t of TiesAwayFromZero \<Rightarrow> f + 1 | TiesToEven \<Rightarrow> if even f then f else f + 1))"

definition printf_2f :: "tie_rule \<Rightarrow> c_float \<Rightarrow> string" where
  "printf_2f t x =
     (let h = round_hundredths t \<bar>x\<bar>
      in (if x < 0 then ''-'' else []) @ decimal (h div 100) @ ''.'' @
         [digit_of (h mod 100 div 10), digit_of (h mod 10)])"

section \<open>The outside world\<close>

text \<open>
  Everything \<^verbatim>\<open>main\<close> does to the outside is recorded, in order, as a list of events: the
  calls to the SMBus adapter, the lines written to \<^verbatim>\<open>stderr\<close>, the calls on the log file,
  \<^verbatim>\<open>getchar\<close> and \<^verbatim>\<open>Sleep\<close>. What the outside answers is an input of the model.
\<close>

type_synonym FILE = nat

datatype event =
    Stderr string
  | SMBus_Open_call
  | SMBus_Configure_call nat BYTE bool nat nat bool nat nat
  | SMBus_Close_call
  | SMBus_Read_call BYTE WORD BYTE BYTE
  | SMBus_Write_call "BYTE list" BYTE WORD
  | Getchar_call
  | Fopen_call string string "FILE option"
  | Fprintf_call "FILE option" string
  | Fclose_call "FILE option"
  | Sleep_call nat

text \<open>
  Modelled from the spec: the answer of \<^verbatim>\<open>SMBus_Read\<close>, which \<^verbatim>\<open>smbus.h\<close> declares and
  whose source is not among the files. The spec gives \<open>read(handle, target_register_address, length: 2,
  slave_address) -> exactly length bytes | failure\<close>, "a failure is signaled when fewer than
  length bytes are returned", and "a failed read leaves prior bytes in place". A reply is the
  value the call returns and the bytes it has put at the start of \<^verbatim>\<open>buffer\<close>: two bytes
  and the value 2 for a read that succeeded, no byte and another value for one that failed
  as the spec describes it.
\<close>

record smbus_reply =
  returned :: int
  stored :: "BYTE list"

definition reply_ok :: "BYTE \<Rightarrow> BYTE \<Rightarrow> smbus_reply" where
  "reply_ok b0 b1 = \<lparr>returned = 2, stored = [b0, b1]\<rparr>"

definition reply_failed :: smbus_reply where
  "reply_failed = \<lparr>returned = - 1, stored = []\<rparr>"

definition poke :: "BYTE list \<Rightarrow> (nat \<Rightarrow> BYTE) \<Rightarrow> (nat \<Rightarrow> BYTE)" where
  "poke bs buf = (\<lambda>i. if i < length bs then bs ! i else buf i)"

text \<open>
  What the outside answers before the loop (with what the build yields for the casts of
  line 113 and 114), and in one pass of the loop.
\<close>

record startup_env =
  casts :: float_casts
  open_result :: int
  configure_result :: int
  rd_MFRversion :: smbus_reply
  rd_HWOCP_before :: smbus_reply
  wr_write_protect :: int
  wr_HWOCP :: int
  rd_HWOCP_after :: smbus_reply

record poll_env =
  rd_temperature1 :: smbus_reply
  rd_temperature2 :: smbus_reply
  rd_HVvoltage :: smbus_reply
  rd_LVvoltage :: smbus_reply
  rd_I2_current :: smbus_reply
  rd_I1_current :: smbus_reply
  rd_I1_CNT :: smbus_reply
  rd_DUT_Status :: smbus_reply
  fopen_result :: "FILE option"

section \<open>The state of the program\<close>

text \<open>
  The globals of lines 22-40 and the locals of \<^verbatim>\<open>main\<close>, with the events so far.
  \<^verbatim>\<open>first_timeA\<close> is an \<^verbatim>\<open>int\<close> that line 248 increments in every pass. ISO C leaves the
  increment of \<^verbatim>\<open>INT_MAX\<close> undefined; the machine code of the x86 targets wraps around, and
  so does the 32-bit word of the model.
\<close>

record prog_state =
  buffer :: "nat \<Rightarrow> BYTE"
  targetAddress :: "nat \<Rightarrow> BYTE"
  regLength :: WORD
  MFRversion_raw :: INT16
  HWOCP_raw :: INT16
  HWOCP_A :: c_float
  temperature1_raw :: INT16
  temperature1_C :: c_float
  temperature2_raw :: INT16
  temperature2_C :: c_float
  HVvoltage_raw :: INT16
  HVvoltage_V :: c_float
  LVvoltage_raw :: INT16
  LVvoltage_V :: c_float
  I2_current_raw :: INT16
  I2_current_A :: c_float
  I1_current_raw :: INT16
  I1_current_A :: c_float
  I1_CNT :: INT16
  DUT_Status :: INT16
  first_timeA :: c_int
  first_timeB :: c_int
  trace :: "event list"

text \<open>
  At the start the globals are zero; the locals \<^verbatim>\<open>buffer\<close>, \<^verbatim>\<open>targetAddress\<close> and
  \<^verbatim>\<open>regLength\<close> are not initialised and hold anything.
\<close>

definition initial_state :: "(nat \<Rightarrow> BYTE) \<Rightarrow> (nat \<Rightarrow> BYTE) \<Rightarrow> WORD \<Rightarrow> prog_state" where
  "initial_state buf ta rl =
     \<lparr>buffer = buf, targetAddress = ta, regLength = rl,
      MFRversion_raw = 0, HWOCP_raw = 0, HWOCP_A = 0,
      temperature1_raw = 0, temperature1_C = 0, temperature2_raw = 0, temperature2_C = 0,
      HVvoltage_raw = 0, HVvoltage_V = 0, LVvoltage_raw = 0, LVvoltage_V = 0,
      I2_current_raw = 0, I2_current_A = 0, I1_current_raw = 0, I1_current_A = 0,
      I1_CNT = 0, DUT_Status = 0, first_timeA = 0, first_timeB = 0, trace = []\<rparr>"

definition emit :: "event \<Rightarrow> prog_state \<Rightarrow> prog_state" where
  "emit e s = s\<lparr>trace := trace s @ [e]\<rparr>"

text \<open>The constants of lines 7-20 that \<^verbatim>\<open>main\<close> uses.\<close>

definition LVDC4816_SLAVE_ADDRESS0x60_W :: BYTE where
  "LVDC4816_SLAVE_ADDRESS0x60_W = 0xC8"

definition configure_call :: event where
  "configure_call = SMBus_Configure_call 100000 0x02 False 10 10 True 0 100"

section \<open>The register accesses\<close>

text \<open>
  Modelled from the spec: \<^verbatim>\<open>SMBus_Read\<close> of the absent \<^verbatim>\<open>smbus.c\<close>. The call is recorded
  with its arguments, the bytes of the reply are put at the start of the buffer, and the
  value of the reply is returned.
\<close>

definition SMBus_Read ::
  "smbus_reply \<Rightarrow> BYTE \<Rightarrow> WORD \<Rightarrow> BYTE \<Rightarrow> prog_state \<Rightarrow> int \<times> prog_state" where
  "SMBus_Read rp slaveAddress numBytesToRead targetAddressSize s =
     (returned rp,
      emit (SMBus_Read_call slaveAddress numBytesToRead targetAddressSize (targetAddress s 0))
        (s\<lparr>buffer := poke (stored rp) (buffer s)\<rparr>))"

text \<open>
  Modelled from the spec: \<^verbatim>\<open>SMBus_Write\<close>, also of the absent \<^verbatim>\<open>smbus.c\<close>:
  \<open>write(handle, payload, slave_address, length) -> success | failure\<close>; it sends the first
  \<open>length\<close> bytes of the buffer, and \<^verbatim>\<open>main\<close> takes a value other than 0 for a failure.
\<close>

definition SMBus_Write :: "int \<Rightarrow> BYTE \<Rightarrow> WORD \<Rightarrow> prog_state \<Rightarrow> int \<times> prog_state" where
  "SMBus_Write result slaveAddress numBytesToWrite s =
     (result,
      emit (SMBus_Write_call (map (buffer s) [0 ..< unat numBytesToWrite]) slaveAddress
        numBytesToWrite) s)"

text \<open>
  The read that every block of \<^verbatim>\<open>main\<close> repeats (lines 145-152 for the first one of the
  loop), with the text of its error line:
  \<^verbatim>\<open>targetAddress[0] = reg; regLength = 2;\<close>
  \<^verbatim>\<open>if (SMBus_Read(m_hidSmbus, buffer, LVDC4816_SLAVE_ADDRESS0x60_W, regLength, 1, targetAddress) != regLength)\<close>
  \<^verbatim>\<open>    fprintf(stderr, "ERROR: ... %02X\r\n", targetAddress[0]);\<close>
  No branch returns or leaves the loop: the two statements that would are commented out.
\<close>

definition read_register :: "string \<Rightarrow> BYTE \<Rightarrow> smbus_reply \<Rightarrow> prog_state \<Rightarrow> prog_state" where
  "read_register msg reg rp s =
     (let s1 = s\<lparr>targetAddress := (targetAddress s)(0 := reg), regLength := 2\<rparr>;
          (n, s2) = SMBus_Read rp LVDC4816_SLAVE_ADDRESS0x60_W (regLength s1) 1 s1
      in if n \<noteq> uint (regLength s2)
         then emit (Stderr (msg @ printf_02X (int_of_BYTE (targetAddress s2 0)) @ CRLF)) s2
         else s2)"

definition read_error :: string where
  "read_error = ''ERROR: Could not perform SMBus read. Reg = ''"

definition buffer_raw :: "prog_state \<Rightarrow> INT16" where
  "buffer_raw s = assemble_raw (buffer s 0) (buffer s 1)"

section \<open>Before the loop: lines 49-138\<close>

definition read_MFRversion :: "smbus_reply \<Rightarrow> prog_state \<Rightarrow> prog_state" where
  "read_MFRversion rp s =
     (let s1 = read_register ''ERROR: Could not perform SMBus read 'MFRversion' Reg  '' 0x9B rp s;
          s2 = s1\<lparr>MFRversion_raw := buffer_raw s1\<rparr>
      in emit (Stderr (''MFRversion=0x'' @ printf_x (int_of_INT16 (MFRversion_raw s2)) @ CRLF)) s2)"

definition read_HWOCP :: "tie_rule \<Rightarrow> string \<Rightarrow> smbus_reply \<Rightarrow> prog_state \<Rightarrow> prog_state" where
  "read_HWOCP t msg rp s =
     (let s1 = read_register msg 0xEA rp s;
          s2 = s1\<lparr>HWOCP_raw := buffer_raw s1\<rparr>;
          s3 = s2\<lparr>HWOCP_A := decode_voltage_or_current (HWOCP_raw s2)\<rparr>
      in emit (Stderr (''HWOCP='' @ printf_2f t (HWOCP_A s3) @ CRLF)) s3)"

text \<open>Lines 98-107: the write-protect command.\<close>

definition write_protect :: "int \<Rightarrow> prog_state \<Rightarrow> prog_state" where
  "write_protect result s =
     (let s1 = s\<lparr>targetAddress := (targetAddress s)(0 := 0x10)\<rparr>;
          s2 = s1\<lparr>buffer := (buffer s1)(0 := 0x10, 1 := 0)\<rparr>;
          s3 = s2\<lparr>regLength := 2\<rparr>;
          (r, s4) = SMBus_Write result LVDC4816_SLAVE_ADDRESS0x60_W (regLength s3) s3
      in if r \<noteq> 0
         then emit (Stderr (''ERROR: Could not perform SMBus write 'Write protect' Reg = '' @
                printf_02X (int_of_BYTE (targetAddress s4 0)) @ CRLF)) s4
         else s4)"

text \<open>Lines 110-124: the setpoint of 600 A, encoded and written.\<close>

definition write_HWOCP :: "float_casts \<Rightarrow> int \<Rightarrow> prog_state \<Rightarrow> prog_state" where
  "write_HWOCP u result s =
     (let s1 = s\<lparr>targetAddress := (targetAddress s)(0 := 0xEA)\<rparr>;
          s2 = s1\<lparr>HWOCP_A := 600\<rparr>;
          s3 = s2\<lparr>buffer := (buffer s2)(0 := 0xEA)\<rparr>;
          s4 = s3\<lparr>buffer := (buffer s3)(1 := fst (encode_ocp_setpoint u (HWOCP_A s3)))\<rparr>;
          s5 = s4\<lparr>buffer := (buffer s4)(2 := snd (encode_ocp_setpoint u (HWOCP_A s4)))\<rparr>;
          s6 = emit (Stderr (''Setting HWOCP to '' @ printf_d (int_of_BYTE (buffer s5 1)) @ '' '' @ CRLF)) s5;
          s7 = emit (Stderr (''Setting HWOCP to '' @ printf_d (int_of_BYTE (buffer s6 2)) @ '' '' @ CRLF)) s6;
          s8 = s7\<lparr>regLength := 3\<rparr>;
          (r, s9) = SMBus_Write result LVDC4816_SLAVE_ADDRESS0x60_W (regLength s8) s8
      in if r \<noteq> 0
         then emit (Stderr (''ERROR: Could not perform SMBus write. Reg = '' @
                printf_02X (int_of_BYTE (targetAddress s9 0)) @ CRLF)) s9
         else s9)"

definition startup :: "tie_rule \<Rightarrow> startup_env \<Rightarrow> prog_state \<Rightarrow> prog_state" where
  "startup t se s =
     (let s1 = read_MFRversion (rd_MFRversion se) s;
          s2 = read_HWOCP t ''ERROR: Could not perform SMBus read 'HW_OCP' Reg '' (rd_HWOCP_before se) s1;
          s3 = write_protect (wr_write_protect se) s2;
          s4 = write_HWOCP (casts se) (wr_HWOCP se) s3
      in read_HWOCP t read_error (rd_HWOCP_after se) s4)"

section \<open>One pass of the loop: lines 142-256\<close>

definition reset_buffer :: "prog_state \<Rightarrow> prog_state" where
  "reset_buffer s = s\<lparr>buffer := (buffer s)(0 := 0, 1 := 0)\<rparr>"

definition read_temperature1 :: "smbus_reply \<Rightarrow> prog_state \<Rightarrow> prog_state" where
  "read_temperature1 rp s =
     (let s1 = read_register read_error 0x8D rp s;
          s2 = s1\<lparr>temperature1_raw := buffer_raw s1\<rparr>
      in s2\<lparr>temperature1_C := decode_temperature (temperature1_raw s2)\<rparr>)"

definition read_temperature2 :: "smbus_reply \<Rightarrow> prog_state \<Rightarrow> prog_state" where
  "read_temperature2 rp s =
     (let s1 = read_register read_error 0x8E rp s;
          s2 = s1\<lparr>temperature2_raw := buffer_raw s1\<rparr>
      in s2\<lparr>temperature2_C := decode_temperature (temperature2_raw s2)\<rparr>)"

definition read_HVvoltage :: "smbus_reply \<Rightarrow> prog_state \<Rightarrow> prog_state" where
  "read_HVvoltage rp s =
     (let s1 = read_register read_error 0x88 rp s;
          s2 = s1\<lparr>HVvoltage_raw := buffer_raw s1\<rparr>
      in s2\<lparr>HVvoltage_V := decode_voltage_or_current (HVvoltage_raw s2)\<rparr>)"

definition read_LVvoltage :: "smbus_reply \<Rightarrow> prog_state \<Rightarrow> prog_state" where
  "read_LVvoltage rp s =
     (let s1 = read_register read_error 0x8B rp s;
          s2 = s1\<lparr>LVvoltage_raw := buffer_raw s1\<rparr>
      in s2\<lparr>LVvoltage_V := decode_voltage_or_current (LVvoltage_raw s2)\<rparr>)"

definition read_I2_current :: "smbus_reply \<Rightarrow> prog_state \<Rightarrow> prog_state" where
  "read_I2_current rp s =
     (let s1 = read_register read_error 0x8C rp s;
          s2 = s1\<lparr>I2_current_raw := buffer_raw s1\<rparr>
      in s2\<lparr>I2_current_A := decode_voltage_or_current (I2_current_raw s2)\<rparr>)"

definition read_I1_current :: "smbus_reply \<Rightarrow> prog_state \<Rightarrow> prog_state" where
  "read_I1_current rp s =
     (let s1 = read_register read_error 0x90 rp s;
          s2 = s1\<lparr>I1_current_raw := buffer_raw s1\<rparr>
      in s2\<lparr>I1_current_A := decode_voltage_or_current (I1_current_raw s2)\<rparr>)"

definition read_I1_CNT :: "smbus_reply \<Rightarrow> prog_state \<Rightarrow> prog_state" where
  "read_I1_CNT rp s =
     (let s1 = read_register read_error 0xCD rp s
      in s1\<lparr>I1_CNT := buffer_raw s1\<rparr>)"

definition read_DUT_Status :: "smbus_reply \<Rightarrow> prog_state \<Rightarrow> prog_state" where
  "read_DUT_Status rp s =
     (let s1 = read_register read_error 0x79 rp s
      in s1\<lparr>DUT_Status := buffer_raw s1\<rparr>)"

text \<open>Lines 142-244: the eight reads of one pass, in the order of the source.\<close>

definition sample :: "poll_env \<Rightarrow> prog_state \<Rightarrow> prog_state" where
  "sample env s =
     read_DUT_Status (rd_DUT_Status env)
      (read_I1_CNT (rd_I1_CNT env)
        (read_I1_current (rd_I1_current env)
          (read_I2_current (rd_I2_current env)
            (read_LVvoltage (rd_LVvoltage env)
              (read_HVvoltage (rd_HVvoltage env)
                (read_temperature2 (rd_temperature2 env)
                  (read_temperature1 (rd_temperature1 env)
                    (reset_buffer s))))))))"

text \<open>
  The arguments of the two \<^verbatim>\<open>fprintf\<close> of lines 246 and 253, in their order:
  \<^verbatim>\<open>HVvoltage_V, LVvoltage_V, I1_current_A, I2_current_A, temperature1_C, temperature2_C, I1_CNT, DUT_Status\<close>.
\<close>

definition csv_header :: string where
  "csv_header = ''HV_V,LV_V,I1_A,I2_A,Temp1_C,Temp2_C,I1_CNT,DUT_Status'' @ LF"

definition csv_row :: "tie_rule \<Rightarrow> prog_state \<Rightarrow> string" where
  "csv_row t s =
     printf_2f t (HVvoltage_V s) @ '','' @ printf_2f t (LVvoltage_V s) @ '','' @
     printf_2f t (I1_current_A s) @ '','' @ printf_2f t (I2_current_A s) @ '','' @
     printf_2f t (temperature1_C s) @ '','' @ printf_2f t (temperature2_C s) @ '','' @
     printf_d (int_of_INT16 (I1_CNT s)) @ '',0x'' @ printf_x (int_of_INT16 (DUT_Status s)) @ LF"

definition report_line :: "tie_rule \<Rightarrow> prog_state \<Rightarrow> string" where
  "report_line t s =
     ''HV_V='' @ printf_2f t (HVvoltage_V s) @ '', LV_V='' @ printf_2f t (LVvoltage_V s) @
     '', I1_A='' @ printf_2f t (I1_current_A s) @ '', I2_A='' @ printf_2f t (I2_current_A s) @
     '', Temp1_C='' @ printf_2f t (temperature1_C s) @
     '', Temp2_C='' @ printf_2f t (temperature2_C s) @
     '', I1_CNT='' @ printf_d (int_of_INT16 (I1_CNT s)) @
     '', DUT_Status=0x'' @ printf_x (int_of_INT16 (DUT_Status s)) @ CRLF"

text \<open>
  Lines 248-254. The value \<^verbatim>\<open>fopen\<close> returns is used as it comes, a null pointer too:
  \<^verbatim>\<open>first_timeA ++; fp = fopen("outputA.csv", "a");\<close>
  \<^verbatim>\<open>if(first_timeA == 1) fprintf(fp, "HV_V,...\n");\<close>
  \<^verbatim>\<open>fprintf(fp, "%2.2f,...\n", ...); fclose(fp);\<close>
\<close>

definition log_csv :: "tie_rule \<Rightarrow> FILE option \<Rightarrow> prog_state \<Rightarrow> prog_state" where
  "log_csv t fp s =
     (let s1 = s\<lparr>first_timeA := first_timeA s + 1\<rparr>;
          s2 = emit (Fopen_call ''outputA.csv'' ''a'' fp) s1;
          s3 = (if first_timeA s2 = 1 then emit (Fprintf_call fp csv_header) s2 else s2);
          s4 = emit (Fprintf_call fp (csv_row t s3)) s3
      in emit (Fclose_call fp) s4)"

definition poll_iteration :: "tie_rule \<Rightarrow> poll_env \<Rightarrow> prog_state \<Rightarrow> prog_state" where
  "poll_iteration t env s =
     (let s1 = sample env s;
          s2 = emit (Stderr (report_line t s1)) s1;
          s3 = log_csv t (fopen_result env) s2
      in emit (Sleep_call 500) s3)"

text \<open>
  \<^verbatim>\<open>while(1)\<close> has no exit. The model runs it for as many passes as it is given answers
  for, one \<open>poll_env\<close> each.
\<close>

fun polling :: "tie_rule \<Rightarrow> poll_env list \<Rightarrow> prog_state \<Rightarrow> prog_state" where
  "polling t [] s = s"
| "polling t (env # envs) s = polling t envs (poll_iteration t env s)"

section \<open>The program\<close>

text \<open>
  \<^verbatim>\<open>main\<close>: the value it returns, or \<open>None\<close> when it is still in the loop after the passes
  it was given answers for, and the state it has reached.
\<close>

definition main :: "tie_rule \<Rightarrow> startup_env \<Rightarrow> poll_env list \<Rightarrow> prog_state \<Rightarrow> int option \<times> prog_state" where
  "main t se envs s =
     (let s1 = emit SMBus_Open_call s
      in if open_result se \<noteq> 0
         then
           (let s2 = emit (Stderr (CRLF @ ''ERROR: Could not open device.'' @ CRLF)) s1;
                s3 = emit SMBus_Close_call s2;
                s4 = emit (Stderr ''Enter to exit...'') s3;
                s5 = emit Getchar_call s4
            in (Some (- 1), s5))
         else
           (let s2 = emit (Stderr (CRLF @ ''Device successfully opened.'' @ CRLF)) s1;
                s3 = emit configure_call s2
            in if configure_result se \<noteq> 0
               then
                 (let s4 = emit (Stderr (''ERROR: Could not configure device.'' @ CRLF)) s3;
                      s5 = emit SMBus_Close_call s4;
                      s6 = emit (Stderr ''Enter to exit...'') s5;
                      s7 = emit Getchar_call s6
                  in (Some (- 1), s7))
               else
                 (let s4 = emit (Stderr (''Device successfully configured.'' @ CRLF)) s3
                  in (None, polling t envs (startup t se s4)))))"

text \<open>What is read off a list of events.\<close>

fun is_file_event :: "event \<Rightarrow> bool" where
  "is_file_event (Fopen_call n m fp) = True"
| "is_file_event (Fprintf_call fp txt) = True"
| "is_file_event (Fclose_call fp) = True"
| "is_file_event e = False"


fun is_read :: "event \<Rightarrow> bool" where
  "is_read (SMBus_Read_call a n z r) = True"
| "is_read e = False"

fun is_stderr :: "event \<Rightarrow> bool" where
  "is_stderr (Stderr txt) = True"
| "is_stderr e = False"

definition file_events :: "event list \<Rightarrow> event list" where
  "file_events tr = filter is_file_event tr"


definition register_reads :: "event list \<Rightarrow> event list" where
  "register_reads tr = filter is_read tr"

definition stderr_lines :: "event list \<Rightarrow> event list" where
  "stderr_lines tr = filter is_stderr tr"

text \<open>The record of one pass, in the order of the printed line.\<close>

definition telemetry_record ::
  "prog_state \<Rightarrow> c_float \<times> c_float \<times> c_float \<times> c_float \<times> c_float \<times> c_float \<times> INT16 \<times> INT16" where
  "telemetry_record s =
     (HVvoltage_V s, LVvoltage_V s, I1_current_A s, I2_current_A s,
      temperature1_C s, temperature2_C s, I1_CNT s, DUT_Status s)"

section \<open>What one pass does, written out\<close>

text \<open>
  The events of one register read: the call, and the error line when the value returned is
  not the length asked for.
\<close>

definition read_events :: "string \<Rightarrow> BYTE \<Rightarrow> smbus_reply \<Rightarrow> event list" where
  "read_events msg reg rp =
     SMBus_Read_call LVDC4816_SLAVE_ADDRESS0x60_W 2 1 reg #
     (if returned rp \<noteq> 2 then [Stderr (msg @ printf_02X (int_of_BYTE reg) @ CRLF)] else [])"

text \<open>
  \<^verbatim>\<open>main\<close> decodes \<^verbatim>\<open>buffer[0]\<close> and \<^verbatim>\<open>buffer[1]\<close> only. \<open>head_after bs h\<close> is that pair
  after a read that stored the bytes \<open>bs\<close> over the pair \<open>h\<close>; \<open>head_chain\<close> follows it
  through the reads of one pass, from the two zeros of lines 142-143; \<open>raw_at k env\<close> is
  the raw value that the \<open>k\<close>-th read of a pass decodes.
\<close>

definition head_after :: "BYTE list \<Rightarrow> BYTE \<times> BYTE \<Rightarrow> BYTE \<times> BYTE" where
  "head_after bs h =
     (if 0 < length bs then bs ! 0 else fst h, if 1 < length bs then bs ! 1 else snd h)"

definition head_chain :: "BYTE list list \<Rightarrow> BYTE \<times> BYTE" where
  "head_chain bss = foldl (\<lambda>h bs. head_after bs h) (0, 0) bss"

definition raw_of_head :: "BYTE \<times> BYTE \<Rightarrow> INT16" where
  "raw_of_head h = assemble_raw (fst h) (snd h)"

definition stored_bytes :: "poll_env \<Rightarrow> BYTE list list" where
  "stored_bytes env =
     [stored (rd_temperature1 env), stored (rd_temperature2 env), stored (rd_HVvoltage env),
      stored (rd_LVvoltage env), stored (rd_I2_current env), stored (rd_I1_current env),
      stored (rd_I1_CNT env), stored (rd_DUT_Status env)]"

definition raw_at :: "nat \<Rightarrow> poll_env \<Rightarrow> INT16" where
  "raw_at k env = raw_of_head (head_chain (take k (stored_bytes env)))"

definition pass_reads :: "poll_env \<Rightarrow> event list" where
  "pass_reads env =
     read_events read_error 0x8D (rd_temperature1 env) @
     read_events read_error 0x8E (rd_temperature2 env) @
     read_events read_error 0x88 (rd_HVvoltage env) @
     read_events read_error 0x8B (rd_LVvoltage env) @
     read_events read_error 0x8C (rd_I2_current env) @
     read_events read_error 0x90 (rd_I1_current env) @
     read_events read_error 0xCD (rd_I1_CNT env) @
     read_events read_error 0x79 (rd_DUT_Status env)"

text \<open>
  The events of the pass that finds the value \<open>c\<close> in \<^verbatim>\<open>first_timeA\<close> and reaches the
  state \<open>s1\<close> after its reads, and the events of a run of passes.
\<close>

definition log_events :: "tie_rule \<Rightarrow> FILE option \<Rightarrow> c_int \<Rightarrow> prog_state \<Rightarrow> event list" where
  "log_events t fp c s1 =
     Fopen_call ''outputA.csv'' ''a'' fp #
     (if c + 1 = 1 then [Fprintf_call fp csv_header] else []) @
     [Fprintf_call fp (csv_row t s1), Fclose_call fp]"

definition pass_events :: "tie_rule \<Rightarrow> poll_env \<Rightarrow> prog_state \<Rightarrow> event list" where
  "pass_events t env s =
     pass_reads env @ [Stderr (report_line t (sample env s))] @
     log_events t (fopen_result env) (first_timeA s) (sample env s) @ [Sleep_call 500]"

definition the_eight_reads :: "event list" where
  "the_eight_reads =
     map (SMBus_Read_call LVDC4816_SLAVE_ADDRESS0x60_W 2 1)
       [0x8D, 0x8E, 0x88, 0x8B, 0x8C, 0x90, 0xCD, 0x79]"

definition failure_lines :: "poll_env \<Rightarrow> event list" where
  "failure_lines env = stderr_lines (pass_reads env)"

definition read_error_line :: "BYTE \<Rightarrow> event" where
  "read_error_line reg = Stderr (read_error @ printf_02X (int_of_BYTE reg) @ CRLF)"

section \<open>Some answers of the outside\<close>

text \<open>
  The end-to-end sample of the spec: the registers hold temp1 = 0x0500, temp2 = 0x0500,
  HV = 0x1400, LV = 0x0A00, I2 = 0x0200, I1 = 0x0300, cnt = 0x0007, status = 0x0000, sent
  low byte first.
\<close>

definition end_to_end_env :: "FILE option \<Rightarrow> poll_env" where
  "end_to_end_env fp =
     \<lparr>rd_temperature1 = reply_ok 0x00 0x05, rd_temperature2 = reply_ok 0x00 0x05,
      rd_HVvoltage = reply_ok 0x00 0x14, rd_LVvoltage = reply_ok 0x00 0x0A,
      rd_I2_current = reply_ok 0x00 0x02, rd_I1_current = reply_ok 0x00 0x03,
      rd_I1_CNT = reply_ok 0x07 0x00, rd_DUT_Status = reply_ok 0x00 0x00,
      fopen_result = fp\<rparr>"

text \<open>A pass in which every read fails and leaves the buffer as it is.\<close>

definition all_failed_env :: "FILE option \<Rightarrow> poll_env" where
  "all_failed_env fp =
     \<lparr>rd_temperature1 = reply_failed, rd_temperature2 = reply_failed,
      rd_HVvoltage = reply_failed, rd_LVvoltage = reply_failed,
      rd_I2_current = reply_failed, rd_I1_current = reply_failed,
      rd_I1_CNT = reply_failed, rd_DUT_Status = reply_failed,
      fopen_result = fp\<rparr>"

text \<open>
  A start in which the adapter opens and every access succeeds, in the build whose casts
  saturate: the setpoint write sends EA FF 4B and the device gives FF 4B back.
\<close>

definition good_startup :: startup_env where
  "good_startup =
     \<lparr>casts = saturating_casts, open_result = 0, configure_result = 0, rd_MFRversion = reply_ok 0x01 0x00,
      rd_HWOCP_before = reply_ok 0x00 0x32, wr_write_protect = 0, wr_HWOCP = 0,
      rd_HWOCP_after = reply_ok 0xFF 0x4B\<rparr>"

definition zero_state :: prog_state where
  "zero_state = initial_state (\<lambda>i. 0) (\<lambda>i. 0) 0"

text \<open>The events of lines 49-68 when the adapter opens and takes its configuration.\<close>

definition opened_events :: "event list" where
  "opened_events =
     [SMBus_Open_call, Stderr (CRLF @ ''Device successfully opened.'' @ CRLF), configure_call,
      Stderr (''Device successfully configured.'' @ CRLF)]"

section \<open>Facts about the conversions\<close>

lemma mask_FFFF: "(0xFFFF :: c_int) = mask 16"
  by (simp add: mask_eq_exp_minus_1)

lemma mask_ff: "(0xff :: c_int) = mask 8"
  by (simp add: mask_eq_exp_minus_1)

lemma assemble_raw_cat: "assemble_raw b0 b1 = word_cat b1 b0"
  unfolding assemble_raw_def Let_def INT16_of_int_def int_of_INT16_def int_of_BYTE_def mask_FFFF
  apply (rule bit_word_eqI)
  apply (simp only: bit_simps bit_word_cat_iff)
  apply (auto dest: bit_imp_le_length)
  done

lemma unat_BYTE_less: "unat (b :: BYTE) < 256"
  using unsigned_less [of b, where 'a = nat] by simp

lemma unat_word_cat_bytes:
  "unat (word_cat (b1 :: BYTE) (b0 :: BYTE) :: INT16) = unat b1 * 256 + unat b0"
proof -
  have up: "unat (ucast b :: INT16) = unat b" for b :: BYTE
  proof -
    have "unat b < 2 ^ 16"
      using unat_BYTE_less [of b] by simp
    then show ?thesis
      by (simp add: unsigned_ucast_eq take_bit_nat_eq_self)
  qed
  have "unat b1 * 256 + unat b0 < 65536"
    using unat_BYTE_less [of b1] unat_BYTE_less [of b0] by arith
  then show ?thesis
    using unat_BYTE_less [of b1] unat_BYTE_less [of b0]
    by (simp add: word_cat_eq push_bit_eq_mult unat_word_ariths up)
qed

lemma word_cat_split: "word_cat (ucast (drop_bit 8 w) :: BYTE) (ucast w :: BYTE) = (w :: INT16)"
  apply (rule bit_word_eqI)
  apply (simp only: bit_simps bit_word_cat_iff)
  apply (auto dest: bit_imp_le_length)
  done

lemma sint_INT16_unat:
  "sint (w :: INT16) = (if unat w < 32768 then int (unat w) else int (unat w) - 65536)"
proof -
  have bound: "uint w < 65536"
    using unsigned_less [of w, where 'a = int] by simp
  have nonneg: "0 \<le> uint w"
    by simp
  have s: "sint w = (uint w + 32768) mod 65536 - 32768"
    using int_word_sint [of "uint w", where 'a = 16] by simp
  have u: "int (unat w) = uint w"
    by simp
  show ?thesis
  proof (cases "unat w < 32768")
    case True
    then have "uint w < 32768" using u by linarith
    then have "(uint w + 32768) mod 65536 = uint w + 32768"
      using nonneg by simp
    then show ?thesis using s True u by simp
  next
    case False
    then have ge: "32768 \<le> uint w" using u by linarith
    have e: "uint w + 32768 = (uint w - 32768) + 65536 * 1"
      by arith
    have "(uint w + 32768) mod 65536 = (uint w - 32768) mod 65536"
      by (subst e) (rule mod_mult_self2)
    also have "\<dots> = uint w - 32768"
      using ge bound by simp
    finally show ?thesis using s False u by simp
  qed
qed

lemma low_byte_mask: "UINT8_of_int (int_of_BYTE b AND 0xff) = b"
  unfolding UINT8_of_int_def int_of_BYTE_def mask_ff
  apply (rule bit_word_eqI)
  apply (auto simp add: bit_simps dest: bit_imp_le_length)
  done

lemma high_byte_mask:
  "UINT8_of_int (drop_bit 8 (int_of_UINT16 w) AND 0xff) = ucast (drop_bit 8 w)"
  unfolding UINT8_of_int_def int_of_UINT16_def mask_ff
  apply (rule bit_word_eqI)
  apply (auto simp add: bit_simps dest: bit_imp_le_length)
  done

lemma encode_ocp_setpoint_casts:
  "encode_ocp_setpoint u amps =
     (UINT8_of_float u (amps * 32), ucast (drop_bit 8 (UINT16_of_float u (amps * 32))))"
  by (simp only: encode_ocp_setpoint_def low_byte_mask high_byte_mask)

lemma high_byte_of_int:
  "(ucast (drop_bit 8 (word_of_int n :: UINT16)) :: BYTE) = word_of_int (n div 256)"
proof -
  have "(256 :: int) = 2 ^ 8" by simp
  then have d: "n div 256 = drop_bit 8 n"
    by (simp only: drop_bit_eq_div)
  show ?thesis
    unfolding d
    apply (rule bit_word_eqI)
    apply (auto simp add: bit_simps ac_simps dest: bit_imp_le_length)
    done
qed

lemma floor_ticks_bounds:
  assumes "0 \<le> amps" and "amps < 2048"
  shows "c_trunc (amps * 32) = \<lfloor>amps * 32\<rfloor>" and "0 \<le> \<lfloor>amps * 32\<rfloor>"
    and "\<lfloor>amps * 32\<rfloor> < 65536"
proof -
  have nonneg: "0 \<le> amps * 32" using assms(1) by simp
  then show "c_trunc (amps * 32) = \<lfloor>amps * 32\<rfloor>" by (simp add: c_trunc_def)
  show "0 \<le> \<lfloor>amps * 32\<rfloor>" using nonneg by simp
  have "amps * 32 < 65536" using assms(2) by simp
  then show "\<lfloor>amps * 32\<rfloor> < 65536" by (simp add: floor_less_iff)
qed

lemma encode_high_byte:
  assumes "0 \<le> amps" and "amps < 2048"
  shows "snd (encode_ocp_setpoint u amps) = word_of_int (\<lfloor>amps * 32\<rfloor> div 256)"
  using floor_ticks_bounds [OF assms]
  by (simp add: encode_ocp_setpoint_casts UINT16_of_float_def high_byte_of_int)

lemma encode_low_byte:
  assumes "0 \<le> amps" and "amps < 8"
  shows "fst (encode_ocp_setpoint u amps) = word_of_int \<lfloor>amps * 32\<rfloor>"
proof -
  have nonneg: "0 \<le> amps * 32" using assms(1) by simp
  have "amps * 32 < 256" using assms(2) by simp
  then have "\<lfloor>amps * 32\<rfloor> < 256" by (simp add: floor_less_iff)
  then show ?thesis
    using nonneg by (simp add: encode_ocp_setpoint_casts UINT8_of_float_def c_trunc_def)
qed

lemma encode_600:
  "encode_ocp_setpoint u 600 = (UINT8_unfit u 19200, 0x4B)"
  by (simp add: encode_ocp_setpoint_casts UINT8_of_float_def UINT16_of_float_def c_trunc_def)

lemma round_trip_saturating:
  "ocp_round_trip saturating_casts 600 = 19455 / 32"
  by (simp add: ocp_round_trip_def encode_600 saturating_casts_def assemble_raw_def
      INT16_of_int_def int_of_INT16_def int_of_BYTE_def decode_voltage_or_current_def
      float_of_INT16_def)

lemma round_trip_small:
  assumes "k < 256"
  shows "ocp_round_trip u (of_nat k / 32) = of_nat k / 32"
proof -
  let ?amps = "of_nat k / 32 :: c_float"
  have ticks: "?amps * 32 = of_nat k" by simp
  have lo: "fst (encode_ocp_setpoint u ?amps) = word_of_int (int k)"
    using assms
    by (simp add: encode_ocp_setpoint_casts UINT8_of_float_def c_trunc_def)
  have "0 \<le> ?amps" and "?amps < 2048"
    using assms by simp_all
  then have "snd (encode_ocp_setpoint u ?amps) = word_of_int (\<lfloor>?amps * 32\<rfloor> div 256)"
    by (rule encode_high_byte)
  then have hi: "snd (encode_ocp_setpoint u ?amps) = 0"
    using assms by simp
  have "unat (word_of_nat k :: BYTE) = k"
    using assms by (simp add: unat_of_nat)
  then have "unat (assemble_raw (word_of_nat k) 0) = k"
    by (simp only: assemble_raw_cat unat_word_cat_bytes) simp
  then have "unat (assemble_raw (word_of_int (int k)) 0) = k"
    by simp
  then have signed: "sint (assemble_raw (word_of_int (int k)) 0) = int k"
    using assms by (simp add: sint_INT16_unat)
  have "ocp_round_trip u ?amps = of_int (sint (assemble_raw (word_of_int (int k)) 0)) / 32"
    by (simp only: ocp_round_trip_def split_beta lo hi decode_voltage_or_current_def
        float_of_INT16_def)
  also have "\<dots> = of_int (int k) / 32"
    by (simp only: signed)
  finally show ?thesis
    by simp
qed

lemma write_HWOCP_sends:
  "SMBus_Write_call [0xEA, UINT8_unfit u 19200, 0x4B] LVDC4816_SLAVE_ADDRESS0x60_W 3
     \<in> set (trace (write_HWOCP u r s))"
  by (simp add: write_HWOCP_def SMBus_Write_def emit_def Let_def encode_600 upt_rec)

section \<open>Facts about one pass of the loop\<close>

lemma read_register_eq:
  "read_register msg reg rp s =
     s\<lparr>targetAddress := (targetAddress s)(0 := reg), regLength := 2,
       buffer := poke (stored rp) (buffer s),
       trace := trace s @ read_events msg reg rp\<rparr>"
  by (simp add: read_register_def SMBus_Read_def emit_def read_events_def
      LVDC4816_SLAVE_ADDRESS0x60_W_def)

lemmas block_defs = read_temperature1_def read_temperature2_def read_HVvoltage_def
  read_LVvoltage_def read_I2_current_def read_I1_current_def read_I1_CNT_def
  read_DUT_Status_def reset_buffer_def buffer_raw_def

lemma poke_head:
  "assemble_raw (poke bs buf 0) (poke bs buf (Suc 0)) = raw_of_head (head_after bs (buf 0, buf (Suc 0)))"
  "head_after bs' (poke bs buf 0, poke bs buf (Suc 0)) = head_after bs' (head_after bs (buf 0, buf (Suc 0)))"
  by (simp_all add: poke_def head_after_def raw_of_head_def)

lemma head_chain_simps:
  "head_after bs (0, 0) = head_chain [bs]"
  "head_after bs (head_chain bss) = head_chain (bss @ [bs])"
  by (simp_all add: head_chain_def)

lemma trace_sample: "trace (sample env s) = trace s @ pass_reads env"
  by (simp add: sample_def block_defs read_register_eq pass_reads_def)

lemma first_timeA_sample: "first_timeA (sample env s) = first_timeA s"
  by (simp add: sample_def block_defs read_register_eq)

lemma take_stored_bytes:
  "take 1 (stored_bytes env) = [stored (rd_temperature1 env)]"
  "take 2 (stored_bytes env) = [stored (rd_temperature1 env), stored (rd_temperature2 env)]"
  "take 3 (stored_bytes env) = [stored (rd_temperature1 env), stored (rd_temperature2 env),
     stored (rd_HVvoltage env)]"
  "take 4 (stored_bytes env) = [stored (rd_temperature1 env), stored (rd_temperature2 env),
     stored (rd_HVvoltage env), stored (rd_LVvoltage env)]"
  "take 5 (stored_bytes env) = [stored (rd_temperature1 env), stored (rd_temperature2 env),
     stored (rd_HVvoltage env), stored (rd_LVvoltage env), stored (rd_I2_current env)]"
  "take 6 (stored_bytes env) = [stored (rd_temperature1 env), stored (rd_temperature2 env),
     stored (rd_HVvoltage env), stored (rd_LVvoltage env), stored (rd_I2_current env),
     stored (rd_I1_current env)]"
  "take 7 (stored_bytes env) = [stored (rd_temperature1 env), stored (rd_temperature2 env),
     stored (rd_HVvoltage env), stored (rd_LVvoltage env), stored (rd_I2_current env),
     stored (rd_I1_current env), stored (rd_I1_CNT env)]"
  "take 8 (stored_bytes env) = [stored (rd_temperature1 env), stored (rd_temperature2 env),
     stored (rd_HVvoltage env), stored (rd_LVvoltage env), stored (rd_I2_current env),
     stored (rd_I1_current env), stored (rd_I1_CNT env), stored (rd_DUT_Status env)]"
  by (simp_all add: stored_bytes_def)

lemma sample_raw:
  "temperature1_raw (sample env s) = raw_at 1 env"
  "temperature2_raw (sample env s) = raw_at 2 env"
  "HVvoltage_raw (sample env s) = raw_at 3 env"
  "LVvoltage_raw (sample env s) = raw_at 4 env"
  "I2_current_raw (sample env s) = raw_at 5 env"
  "I1_current_raw (sample env s) = raw_at 6 env"
  "I1_CNT (sample env s) = raw_at 7 env"
  "DUT_Status (sample env s) = raw_at 8 env"
  unfolding raw_at_def take_stored_bytes
  by (simp_all add: sample_def block_defs read_register_eq poke_head head_chain_simps)

lemma sample_value:
  "temperature1_C (sample env s) = decode_temperature (raw_at 1 env)"
  "temperature2_C (sample env s) = decode_temperature (raw_at 2 env)"
  "HVvoltage_V (sample env s) = decode_voltage_or_current (raw_at 3 env)"
  "LVvoltage_V (sample env s) = decode_voltage_or_current (raw_at 4 env)"
  "I2_current_A (sample env s) = decode_voltage_or_current (raw_at 5 env)"
  "I1_current_A (sample env s) = decode_voltage_or_current (raw_at 6 env)"
  unfolding raw_at_def take_stored_bytes
  by (simp_all add: sample_def block_defs read_register_eq poke_head head_chain_simps)

lemma csv_row_sample: "csv_row t (sample env s) = csv_row t (sample env s')"
  by (simp add: csv_row_def sample_raw sample_value)

lemma report_line_sample: "report_line t (sample env s) = report_line t (sample env s')"
  by (simp add: report_line_def sample_raw sample_value)

lemma csv_row_cong:
  "telemetry_record s = telemetry_record s' \<Longrightarrow> csv_row t s = csv_row t s'"
  by (simp add: csv_row_def telemetry_record_def)

lemma log_csv_eq:
  "log_csv t fp s = s\<lparr>first_timeA := first_timeA s + 1,
      trace := trace s @ log_events t fp (first_timeA s) s\<rparr>"
  by (simp add: log_csv_def emit_def log_events_def csv_row_def Let_def)

lemma poll_iteration_trace:
  "trace (poll_iteration t env s) = trace s @ pass_events t env s"
  by (simp add: poll_iteration_def log_csv_eq emit_def Let_def pass_events_def trace_sample
     first_timeA_sample log_events_def csv_row_def)


section \<open>Facts about the events\<close>






lemma file_events_append: "file_events (xs @ ys) = file_events xs @ file_events ys"
  by (simp add: file_events_def)

lemma register_reads_append: "register_reads (xs @ ys) = register_reads xs @ register_reads ys"
  by (simp add: register_reads_def)

lemma stderr_lines_append: "stderr_lines (xs @ ys) = stderr_lines xs @ stderr_lines ys"
  by (simp add: stderr_lines_def)


lemma file_events_Cons:
  "file_events (e # xs) = (if is_file_event e then [e] else []) @ file_events xs"
  "file_events [] = []"
  by (simp_all add: file_events_def)

lemma register_reads_Cons:
  "register_reads (e # xs) = (if is_read e then [e] else []) @ register_reads xs"
  "register_reads [] = []"
  by (simp_all add: register_reads_def)

lemma stderr_lines_Cons:
  "stderr_lines (e # xs) = (if is_stderr e then [e] else []) @ stderr_lines xs"
  "stderr_lines [] = []"
  by (simp_all add: stderr_lines_def)

lemma register_reads_read_events:
  "register_reads (read_events msg reg rp) = [SMBus_Read_call LVDC4816_SLAVE_ADDRESS0x60_W 2 1 reg]"
  by (simp add: register_reads_def read_events_def)

lemma file_events_read_events: "file_events (read_events msg reg rp) = []"
  by (simp add: file_events_def read_events_def)


lemma register_reads_pass_reads: "register_reads (pass_reads env) = the_eight_reads"
  by (simp add: pass_reads_def register_reads_append register_reads_read_events the_eight_reads_def)

lemma file_events_pass_reads: "file_events (pass_reads env) = []"
  by (simp add: pass_reads_def file_events_append file_events_read_events)


lemma first_timeA_is_zero: "(c + 1 = (1 :: c_int)) = (c = 0)"
  by simp


lemma register_reads_log_events: "register_reads (log_events t fp c s1) = []"
  by (simp add: log_events_def register_reads_def)

lemma file_events_log_events: "file_events (log_events t fp c s1) = log_events t fp c s1"
  by (simp add: log_events_def file_events_def)


lemma register_reads_pass_events: "register_reads (pass_events t env s) = the_eight_reads"
  by (simp add: pass_events_def register_reads_append register_reads_pass_reads
      register_reads_log_events register_reads_Cons)

lemma file_events_pass_events:
  "file_events (pass_events t env s) =
     log_events t (fopen_result env) (first_timeA s) (sample env s)"
  by (simp add: pass_events_def file_events_append file_events_pass_reads
      file_events_log_events file_events_Cons)

lemma stderr_lines_pass_events:
  "stderr_lines (pass_events t env s) = failure_lines env @ [Stderr (report_line t (sample env s))]"
  by (simp add: pass_events_def stderr_lines_append failure_lines_def stderr_lines_Cons
      log_events_def)



lemma register_reads_polling:
  "register_reads (trace (polling t envs s)) =
     register_reads (trace s) @ concat (replicate (length envs) the_eight_reads)"
  by (induction envs arbitrary: s)
    (simp_all add: poll_iteration_trace register_reads_append register_reads_pass_events)

section \<open>Facts about the loop\<close>




section \<open>Facts about the start\<close>







section \<open>Facts about the program\<close>

lemma main_polls:
  "open_result se = 0 \<Longrightarrow> configure_result se = 0 \<Longrightarrow>
   main t se envs s =
     (None, polling t envs (startup t se (s\<lparr>trace := trace s @ opened_events\<rparr>)))"
  by (simp add: main_def emit_def Let_def opened_events_def)

lemma main_open_fails:
  "open_result se \<noteq> 0 \<Longrightarrow>
   main t se envs s =
     (Some (- 1), s\<lparr>trace := trace s @ [SMBus_Open_call,
        Stderr (CRLF @ ''ERROR: Could not open device.'' @ CRLF), SMBus_Close_call,
        Stderr ''Enter to exit...'', Getchar_call]\<rparr>)"
  by (simp add: main_def emit_def Let_def)

lemma main_configure_fails:
  "open_result se = 0 \<Longrightarrow> configure_result se \<noteq> 0 \<Longrightarrow>
   main t se envs s =
     (Some (- 1), s\<lparr>trace := trace s @ [SMBus_Open_call,
        Stderr (CRLF @ ''Device successfully opened.'' @ CRLF), configure_call,
        Stderr (''ERROR: Could not configure device.'' @ CRLF), SMBus_Close_call,
        Stderr ''Enter to exit...'', Getchar_call]\<rparr>)"
  by (simp add: main_def emit_def Let_def)



lemma poll_iteration_fields:
  "temperature1_raw (poll_iteration t env s) = temperature1_raw (sample env s)"
  "temperature2_raw (poll_iteration t env s) = temperature2_raw (sample env s)"
  "HVvoltage_raw (poll_iteration t env s) = HVvoltage_raw (sample env s)"
  "LVvoltage_raw (poll_iteration t env s) = LVvoltage_raw (sample env s)"
  "I2_current_raw (poll_iteration t env s) = I2_current_raw (sample env s)"
  "I1_current_raw (poll_iteration t env s) = I1_current_raw (sample env s)"
  "temperature1_C (poll_iteration t env s) = temperature1_C (sample env s)"
  "temperature2_C (poll_iteration t env s) = temperature2_C (sample env s)"
  "HVvoltage_V (poll_iteration t env s) = HVvoltage_V (sample env s)"
  "LVvoltage_V (poll_iteration t env s) = LVvoltage_V (sample env s)"
  "I2_current_A (poll_iteration t env s) = I2_current_A (sample env s)"
  "I1_current_A (poll_iteration t env s) = I1_current_A (sample env s)"
  "I1_CNT (poll_iteration t env s) = I1_CNT (sample env s)"
  "DUT_Status (poll_iteration t env s) = DUT_Status (sample env s)"
  by (simp_all add: poll_iteration_def log_csv_eq emit_def Let_def)

lemma poll_iteration_raw:
  "temperature1_raw (poll_iteration t env s) = raw_at 1 env"
  "temperature2_raw (poll_iteration t env s) = raw_at 2 env"
  "HVvoltage_raw (poll_iteration t env s) = raw_at 3 env"
  "LVvoltage_raw (poll_iteration t env s) = raw_at 4 env"
  "I2_current_raw (poll_iteration t env s) = raw_at 5 env"
  "I1_current_raw (poll_iteration t env s) = raw_at 6 env"
  "I1_CNT (poll_iteration t env s) = raw_at 7 env"
  "DUT_Status (poll_iteration t env s) = raw_at 8 env"
  by (simp_all only: poll_iteration_fields sample_raw)

lemma poll_iteration_value:
  "temperature1_C (poll_iteration t env s) = decode_temperature (raw_at 1 env)"
  "temperature2_C (poll_iteration t env s) = decode_temperature (raw_at 2 env)"
  "HVvoltage_V (poll_iteration t env s) = decode_voltage_or_current (raw_at 3 env)"
  "LVvoltage_V (poll_iteration t env s) = decode_voltage_or_current (raw_at 4 env)"
  "I2_current_A (poll_iteration t env s) = decode_voltage_or_current (raw_at 5 env)"
  "I1_current_A (poll_iteration t env s) = decode_voltage_or_current (raw_at 6 env)"
  by (simp_all only: poll_iteration_fields sample_value)

section \<open>The claims on the decode and the encode\<close>


text \<open>
  C1 (as amended). The voltage and current decode reads the register as a two's-complement
  \<^verbatim>\<open>INT16\<close>: a raw register value in [0, 32767] decodes to \<open>raw / 32\<close>, a raw value in
  [32768, 65535] decodes to \<open>(raw - 65536) / 32\<close>, and raw = 3200 decodes to 100.
\<close>

theorem decode_voltage_or_current_signed:
  "decode_voltage_or_current raw =
     (if unat raw < 32768 then of_nat (unat raw) / 32 else (of_nat (unat raw) - 65536) / 32)
   \<and> decode_voltage_or_current 3200 = 100
   \<and> HVvoltage_V (poll_iteration t env s) =
       decode_voltage_or_current (HVvoltage_raw (poll_iteration t env s))
   \<and> LVvoltage_V (poll_iteration t env s) =
       decode_voltage_or_current (LVvoltage_raw (poll_iteration t env s))
   \<and> I1_current_A (poll_iteration t env s) =
       decode_voltage_or_current (I1_current_raw (poll_iteration t env s))
   \<and> I2_current_A (poll_iteration t env s) =
       decode_voltage_or_current (I2_current_raw (poll_iteration t env s))
   \<and> HWOCP_A (read_HWOCP t msg rp s) = decode_voltage_or_current (HWOCP_raw (read_HWOCP t msg rp s))"
proof -
  have gen: "decode_voltage_or_current raw =
      (if unat raw < 32768 then of_nat (unat raw) / 32 else (of_nat (unat raw) - 65536) / 32)"
    by (simp add: decode_voltage_or_current_def float_of_INT16_def sint_INT16_unat)
  have ex: "decode_voltage_or_current 3200 = 100"
    by (simp add: decode_voltage_or_current_def float_of_INT16_def)
  have channels:
    "HVvoltage_V (poll_iteration t env s) =
       decode_voltage_or_current (HVvoltage_raw (poll_iteration t env s))"
    "LVvoltage_V (poll_iteration t env s) =
       decode_voltage_or_current (LVvoltage_raw (poll_iteration t env s))"
    "I1_current_A (poll_iteration t env s) =
       decode_voltage_or_current (I1_current_raw (poll_iteration t env s))"
    "I2_current_A (poll_iteration t env s) =
       decode_voltage_or_current (I2_current_raw (poll_iteration t env s))"
    by (simp_all only: poll_iteration_raw poll_iteration_value)
  have ocp: "HWOCP_A (read_HWOCP t msg rp s) =
      decode_voltage_or_current (HWOCP_raw (read_HWOCP t msg rp s))"
    by (simp add: read_HWOCP_def emit_def Let_def)
  show ?thesis
    using gen ex channels ocp by (simp only: simp_thms)
qed

theorem decode_voltage_or_current_signed_witness:
  "decode_voltage_or_current 5120 = 160 \<and> decode_voltage_or_current 0x8000 = - 1024"
  using decode_voltage_or_current_signed [of 5120] decode_voltage_or_current_signed [of "0x8000"]
  by (simp only: simp_thms) simp

text \<open>
  C1 as stated fails at the register bytes 0x00, 0x80 (raw value 32768, inside [0, 65535]):
  the decode gives -1024, not 32768 / 32 = 1024.
\<close>

theorem decode_voltage_or_current_counterexample:
  "unat (assemble_raw 0x00 0x80) = 32768
   \<and> decode_voltage_or_current (assemble_raw 0x00 0x80) = - 1024
   \<and> decode_voltage_or_current (assemble_raw 0x00 0x80) \<noteq> of_nat (unat (assemble_raw 0x00 0x80)) / 32"
  by (simp add: assemble_raw_def INT16_of_int_def int_of_INT16_def int_of_BYTE_def
      decode_voltage_or_current_def float_of_INT16_def)

text \<open>
  C2 (as amended). The temperature decode reads the register as a two's-complement
  \<^verbatim>\<open>INT16\<close>: a raw register value in [0, 32767] decodes to \<open>raw / 32 - 40\<close>, a raw value in
  [32768, 65535] decodes to \<open>(raw - 65536) / 32 - 40\<close>; raw = 2560 decodes to 40 and
  raw = 1280 decodes to 0.
\<close>

theorem decode_temperature_signed:
  "decode_temperature raw =
     (if unat raw < 32768 then of_nat (unat raw) / 32 - 40
      else (of_nat (unat raw) - 65536) / 32 - 40)
   \<and> decode_temperature 2560 = 40
   \<and> decode_temperature 1280 = 0
   \<and> temperature1_C (poll_iteration t env s) =
       decode_temperature (temperature1_raw (poll_iteration t env s))
   \<and> temperature2_C (poll_iteration t env s) =
       decode_temperature (temperature2_raw (poll_iteration t env s))"
proof -
  have gen: "decode_temperature raw =
      (if unat raw < 32768 then of_nat (unat raw) / 32 - 40
       else (of_nat (unat raw) - 65536) / 32 - 40)"
    by (simp add: decode_temperature_def float_of_INT16_def sint_INT16_unat)
  have ex1: "decode_temperature 2560 = 40"
    by (simp add: decode_temperature_def float_of_INT16_def)
  have ex2: "decode_temperature 1280 = 0"
    by (simp add: decode_temperature_def float_of_INT16_def)
  have channels:
    "temperature1_C (poll_iteration t env s) =
       decode_temperature (temperature1_raw (poll_iteration t env s))"
    "temperature2_C (poll_iteration t env s) =
       decode_temperature (temperature2_raw (poll_iteration t env s))"
    by (simp_all only: poll_iteration_raw poll_iteration_value)
  show ?thesis
    using gen ex1 ex2 channels by (simp only: simp_thms)
qed

theorem decode_temperature_signed_witness:
  "decode_temperature 3200 = 60 \<and> decode_temperature 0xFFE0 = - 41"
  using decode_temperature_signed [of 3200] decode_temperature_signed [of "0xFFE0"]
  by (simp only: simp_thms) simp

text \<open>
  C2 as stated fails at the register bytes 0x00, 0x80 (raw value 32768): the decode gives
  -1064, not 32768 / 32 - 40 = 984.
\<close>

theorem decode_temperature_counterexample:
  "unat (assemble_raw 0x00 0x80) = 32768
   \<and> decode_temperature (assemble_raw 0x00 0x80) = - 1064
   \<and> decode_temperature (assemble_raw 0x00 0x80) \<noteq> of_nat (unat (assemble_raw 0x00 0x80)) / 32 - 40"
  by (simp add: assemble_raw_def INT16_of_int_def int_of_INT16_def int_of_BYTE_def
      decode_temperature_def float_of_INT16_def)

text \<open>
  C3. The encode of lines 113-114 multiplies the amps by 32 and truncates. The high byte
  (line 114, through \<^verbatim>\<open>UINT16\<close>) is bits 8-15 of the truncated value for every setpoint in
  [0, 2048). The low byte (line 113) is the float converted to \<^verbatim>\<open>UINT8\<close> before the mask:
  it is the low byte of the truncated value only below 8 A, and the round trip with the
  decode is exact there. At the 600 A of line 111 the conversion does not fit: the high
  byte is 0x4B and the low byte is whatever the build yields for \<^verbatim>\<open>(UINT8)19200.0f\<close>, not
  0x00 by the code. The setpoint write sends EA, that byte, 4B; in the build that
  saturates it sends EA FF 4B, which decodes to 607.96875 A.
\<close>

theorem encode_ocp_setpoint_low_byte_unfit:
  "encode_ocp_setpoint u 600 = (UINT8_unfit u 19200, 0x4B)
   \<and> encode_ocp_setpoint saturating_casts 600 = (0xFF, 0x4B)
   \<and> ocp_round_trip saturating_casts 600 = 19455 / 32
   \<and> ocp_round_trip saturating_casts 600 \<noteq> 600
   \<and> SMBus_Write_call [0xEA, UINT8_unfit u 19200, 0x4B] LVDC4816_SLAVE_ADDRESS0x60_W 3
       \<in> set (trace (write_HWOCP u r s))
   \<and> (0 \<le> amps \<and> amps < 2048 \<longrightarrow>
        snd (encode_ocp_setpoint u amps) = word_of_int (\<lfloor>amps * 32\<rfloor> div 256))
   \<and> (0 \<le> amps \<and> amps < 8 \<longrightarrow>
        fst (encode_ocp_setpoint u amps) = word_of_int \<lfloor>amps * 32\<rfloor>)
   \<and> (k < 256 \<longrightarrow> ocp_round_trip u (of_nat k / 32) = of_nat k / 32)"
proof -
  have sat: "encode_ocp_setpoint saturating_casts 600 = (0xFF, 0x4B)"
    by (simp add: encode_600 saturating_casts_def)
  have off: "ocp_round_trip saturating_casts 600 \<noteq> 600"
    by (simp add: round_trip_saturating)
  show ?thesis
    using encode_600 [of u] sat round_trip_saturating off write_HWOCP_sends [of u r s]
      encode_high_byte [of amps u] encode_low_byte [of amps u] round_trip_small [of k u]
    by blast
qed

theorem encode_ocp_setpoint_low_byte_unfit_witness:
  "snd (encode_ocp_setpoint saturating_casts 5) = word_of_int (\<lfloor>(5 :: c_float) * 32\<rfloor> div 256)
   \<and> fst (encode_ocp_setpoint saturating_casts 5) = word_of_int \<lfloor>(5 :: c_float) * 32\<rfloor>
   \<and> ocp_round_trip saturating_casts (of_nat 160 / 32) = of_nat 160 / 32"
proof -
  have fits: "(0 :: c_float) \<le> 5 \<and> (5 :: c_float) < 2048" "(0 :: c_float) \<le> 5 \<and> (5 :: c_float) < 8"
    "(160 :: nat) < 256"
    by simp_all
  show ?thesis
    using encode_ocp_setpoint_low_byte_unfit [of saturating_casts _ _ 5 160] fits
    by blast
qed

section \<open>The claims on the loop\<close>

lemma printf_2f_whole:
  "printf_2f t 160 = ''160.00''"
  "printf_2f t 80 = ''80.00''"
  "printf_2f t 24 = ''24.00''"
  "printf_2f t 16 = ''16.00''"
  "printf_2f t 0 = ''0.00''"
  by (simp_all add: printf_2f_def round_hundredths_def decimal.simps digit_of_def)

lemma raw_at_end_to_end:
  "raw_at (Suc 0) (end_to_end_env fp) = 0x0500"
  "raw_at 2 (end_to_end_env fp) = 0x0500"
  "raw_at 3 (end_to_end_env fp) = 0x1400"
  "raw_at 4 (end_to_end_env fp) = 0x0A00"
  "raw_at 5 (end_to_end_env fp) = 0x0200"
  "raw_at 6 (end_to_end_env fp) = 0x0300"
  "raw_at 7 (end_to_end_env fp) = 0x0007"
  "raw_at 8 (end_to_end_env fp) = 0x0000"
  unfolding raw_at_def take_stored_bytes take_stored_bytes(1) [unfolded One_nat_def]
  by (simp_all add: end_to_end_env_def reply_ok_def head_chain_def head_after_def
      raw_of_head_def assemble_raw_def INT16_of_int_def int_of_INT16_def int_of_BYTE_def)

lemma decoded_end_to_end:
  "decode_temperature 0x0500 = 0"
  "decode_voltage_or_current 0x1400 = 160"
  "decode_voltage_or_current 0x0A00 = 80"
  "decode_voltage_or_current 0x0200 = 16"
  "decode_voltage_or_current 0x0300 = 24"
  by (simp_all add: decode_temperature_def decode_voltage_or_current_def float_of_INT16_def)

lemma csv_row_end_to_end:
  "csv_row t (sample (end_to_end_env fp) s) = ''160.00,80.00,24.00,16.00,0.00,0.00,7,0x0'' @ LF"
  by (simp add: csv_row_def sample_raw sample_value raw_at_end_to_end decoded_end_to_end
      printf_2f_whole printf_d_def printf_x_def int_of_INT16_def decimal.simps
      hexadecimal.simps digit_of_def)

text \<open>
  C4 (as amended). A pass that reads temp1 = 0x0500, temp2 = 0x0500, HV = 0x1400,
  LV = 0x0A00, I2 = 0x0200, I1 = 0x0300, cnt = 0x0007, status = 0x0000 decodes Temp1_C = 0,
  Temp2_C = 0, HV = 160, LV = 80, I2 = 16, I1 = 24, I1_CNT = 7, status = 0, and the row it
  appends is \<^verbatim>\<open>160.00,80.00,24.00,16.00,0.00,0.00,7,0x0\<close> with a line feed: the fields come
  in the order of the header, HV_V first, then LV_V. In the first pass the header is
  written before it.
\<close>

theorem end_to_end_record_and_row:
  "temperature1_C (poll_iteration t (end_to_end_env fp) s) = 0
   \<and> temperature2_C (poll_iteration t (end_to_end_env fp) s) = 0
   \<and> HVvoltage_V (poll_iteration t (end_to_end_env fp) s) = 160
   \<and> LVvoltage_V (poll_iteration t (end_to_end_env fp) s) = 80
   \<and> I2_current_A (poll_iteration t (end_to_end_env fp) s) = 16
   \<and> I1_current_A (poll_iteration t (end_to_end_env fp) s) = 24
   \<and> I1_CNT (poll_iteration t (end_to_end_env fp) s) = 7
   \<and> DUT_Status (poll_iteration t (end_to_end_env fp) s) = 0
   \<and> file_events (trace (poll_iteration t (end_to_end_env fp) (s\<lparr>first_timeA := 0\<rparr>))) =
       file_events (trace s) @
       [Fopen_call ''outputA.csv'' ''a'' fp,
        Fprintf_call fp (''HV_V,LV_V,I1_A,I2_A,Temp1_C,Temp2_C,I1_CNT,DUT_Status'' @ LF),
        Fprintf_call fp (''160.00,80.00,24.00,16.00,0.00,0.00,7,0x0'' @ LF),
        Fclose_call fp]"
proof -
  have fields: "temperature1_C (poll_iteration t (end_to_end_env fp) s) = 0"
    "temperature2_C (poll_iteration t (end_to_end_env fp) s) = 0"
    "HVvoltage_V (poll_iteration t (end_to_end_env fp) s) = 160"
    "LVvoltage_V (poll_iteration t (end_to_end_env fp) s) = 80"
    "I2_current_A (poll_iteration t (end_to_end_env fp) s) = 16"
    "I1_current_A (poll_iteration t (end_to_end_env fp) s) = 24"
    "I1_CNT (poll_iteration t (end_to_end_env fp) s) = 7"
    "DUT_Status (poll_iteration t (end_to_end_env fp) s) = 0"
    by (simp_all add: poll_iteration_fields sample_raw sample_value raw_at_end_to_end
        decoded_end_to_end)
  have env: "fopen_result (end_to_end_env fp) = fp"
    by (simp add: end_to_end_env_def)
  have files: "file_events (trace (poll_iteration t (end_to_end_env fp) (s\<lparr>first_timeA := 0\<rparr>))) =
       file_events (trace s) @
       [Fopen_call ''outputA.csv'' ''a'' fp,
        Fprintf_call fp (''HV_V,LV_V,I1_A,I2_A,Temp1_C,Temp2_C,I1_CNT,DUT_Status'' @ LF),
        Fprintf_call fp (''160.00,80.00,24.00,16.00,0.00,0.00,7,0x0'' @ LF),
        Fclose_call fp]"
    by (simp add: poll_iteration_trace file_events_append file_events_pass_events
        log_events_def csv_row_end_to_end env csv_header_def)
  show ?thesis
    using fields files by (simp only: simp_thms)
qed

text \<open>
  C4 as stated fails on its own input: the row is not
  \<^verbatim>\<open>0.00,160.00,24.00,16.00,0.00,0.00,7,0x0\<close>, which has 0.00 for HV_V and 160.00 for LV_V.
\<close>

theorem end_to_end_row_counterexample:
  "csv_row TiesToEven (sample (end_to_end_env None) zero_state) =
     ''160.00,80.00,24.00,16.00,0.00,0.00,7,0x0'' @ LF
   \<and> csv_row TiesToEven (sample (end_to_end_env None) zero_state) \<noteq>
     ''0.00,160.00,24.00,16.00,0.00,0.00,7,0x0'' @ LF"
  by (simp add: csv_row_end_to_end)

lemma file_events_poll_iteration:
  "file_events (trace (poll_iteration t env s)) =
     file_events (trace s) @
     [Fopen_call ''outputA.csv'' ''a'' (fopen_result env)] @
     (if first_timeA s = 0 then [Fprintf_call (fopen_result env) csv_header] else []) @
     [Fprintf_call (fopen_result env) (csv_row t (sample env s)), Fclose_call (fopen_result env)]"
  by (simp add: poll_iteration_trace file_events_append file_events_pass_events log_events_def)







lemma head_chain_snoc: "head_chain (bss @ [bs]) = head_after bs (head_chain bss)"
  by (simp add: head_chain_def)

lemma head_after_Nil: "head_after [] h = h"
  by (simp add: head_after_def)

lemma raw_at_stale:
  assumes "k < 8" and "stored_bytes env ! k = []"
  shows "raw_at (Suc k) env = raw_at k env"
proof -
  have len: "k < length (stored_bytes env)"
    using assms(1) by (simp add: stored_bytes_def)
  have "take (Suc k) (stored_bytes env) = take k (stored_bytes env) @ [stored_bytes env ! k]"
    using len by (rule take_Suc_conv_app_nth)
  then show ?thesis
    by (simp add: raw_at_def head_chain_snoc assms(2) head_after_Nil)
qed

lemma raw_at_0: "raw_at 0 env = 0"
  by (simp add: raw_at_def head_chain_def raw_of_head_def assemble_raw_def INT16_of_int_def
      int_of_INT16_def int_of_BYTE_def)

lemma stderr_lines_read_events:
  "stderr_lines (read_events read_error reg rp) =
     (if returned rp \<noteq> 2 then [read_error_line reg] else [])"
  by (simp add: read_events_def stderr_lines_Cons read_error_line_def)

lemma failure_lines_eq:
  "failure_lines env =
     (if returned (rd_temperature1 env) \<noteq> 2 then [read_error_line 0x8D] else []) @
     (if returned (rd_temperature2 env) \<noteq> 2 then [read_error_line 0x8E] else []) @
     (if returned (rd_HVvoltage env) \<noteq> 2 then [read_error_line 0x88] else []) @
     (if returned (rd_LVvoltage env) \<noteq> 2 then [read_error_line 0x8B] else []) @
     (if returned (rd_I2_current env) \<noteq> 2 then [read_error_line 0x8C] else []) @
     (if returned (rd_I1_current env) \<noteq> 2 then [read_error_line 0x90] else []) @
     (if returned (rd_I1_CNT env) \<noteq> 2 then [read_error_line 0xCD] else []) @
     (if returned (rd_DUT_Status env) \<noteq> 2 then [read_error_line 0x79] else [])"
  unfolding failure_lines_def pass_reads_def stderr_lines_append stderr_lines_read_events ..

text \<open>
  C6. Every pass issues exactly eight register reads, in the order temperature1 (0x8D),
  temperature2 (0x8E), high voltage (0x88), low voltage (0x8B), current2 (0x8C), current1
  (0x90), current1 count (0xCD), status (0x79), whatever the reads return. A read that does
  not return 2 adds its error line to \<^verbatim>\<open>stderr\<close> and nothing else: the pass goes on, each
  value is decoded from the two bytes then in the buffer (a read that stored nothing leaves
  the value of the read before it, and zero for the first), the record line is printed,
  and the loop goes on to the next pass: \<^verbatim>\<open>main\<close> never returns from the loop.
\<close>

theorem eight_reads_failures_logged:
  "register_reads (trace (poll_iteration t env s)) =
     register_reads (trace s) @
     map (SMBus_Read_call LVDC4816_SLAVE_ADDRESS0x60_W 2 1)
       [0x8D, 0x8E, 0x88, 0x8B, 0x8C, 0x90, 0xCD, 0x79]
   \<and> stderr_lines (trace (poll_iteration t env s)) =
     stderr_lines (trace s) @
     (if returned (rd_temperature1 env) \<noteq> 2 then [read_error_line 0x8D] else []) @
     (if returned (rd_temperature2 env) \<noteq> 2 then [read_error_line 0x8E] else []) @
     (if returned (rd_HVvoltage env) \<noteq> 2 then [read_error_line 0x88] else []) @
     (if returned (rd_LVvoltage env) \<noteq> 2 then [read_error_line 0x8B] else []) @
     (if returned (rd_I2_current env) \<noteq> 2 then [read_error_line 0x8C] else []) @
     (if returned (rd_I1_current env) \<noteq> 2 then [read_error_line 0x90] else []) @
     (if returned (rd_I1_CNT env) \<noteq> 2 then [read_error_line 0xCD] else []) @
     (if returned (rd_DUT_Status env) \<noteq> 2 then [read_error_line 0x79] else []) @
     [Stderr (report_line t (sample env s))]
   \<and> temperature1_raw (poll_iteration t env s) = raw_at 1 env
   \<and> temperature2_raw (poll_iteration t env s) = raw_at 2 env
   \<and> HVvoltage_raw (poll_iteration t env s) = raw_at 3 env
   \<and> LVvoltage_raw (poll_iteration t env s) = raw_at 4 env
   \<and> I2_current_raw (poll_iteration t env s) = raw_at 5 env
   \<and> I1_current_raw (poll_iteration t env s) = raw_at 6 env
   \<and> I1_CNT (poll_iteration t env s) = raw_at 7 env
   \<and> DUT_Status (poll_iteration t env s) = raw_at 8 env
   \<and> raw_at 0 env = 0
   \<and> (k < 8 \<and> stored_bytes env ! k = [] \<longrightarrow> raw_at (Suc k) env = raw_at k env)
   \<and> register_reads (trace (polling t envs s)) =
     register_reads (trace s) @ concat (replicate (length envs) the_eight_reads)
   \<and> (open_result se = 0 \<and> configure_result se = 0 \<longrightarrow> fst (main t se envs s) = None)"
proof -
  have reads: "register_reads (trace (poll_iteration t env s)) =
     register_reads (trace s) @
     map (SMBus_Read_call LVDC4816_SLAVE_ADDRESS0x60_W 2 1)
       [0x8D, 0x8E, 0x88, 0x8B, 0x8C, 0x90, 0xCD, 0x79]"
    by (simp only: poll_iteration_trace register_reads_append register_reads_pass_events
        the_eight_reads_def)
  have lines: "stderr_lines (trace (poll_iteration t env s)) =
     stderr_lines (trace s) @
     (if returned (rd_temperature1 env) \<noteq> 2 then [read_error_line 0x8D] else []) @
     (if returned (rd_temperature2 env) \<noteq> 2 then [read_error_line 0x8E] else []) @
     (if returned (rd_HVvoltage env) \<noteq> 2 then [read_error_line 0x88] else []) @
     (if returned (rd_LVvoltage env) \<noteq> 2 then [read_error_line 0x8B] else []) @
     (if returned (rd_I2_current env) \<noteq> 2 then [read_error_line 0x8C] else []) @
     (if returned (rd_I1_current env) \<noteq> 2 then [read_error_line 0x90] else []) @
     (if returned (rd_I1_CNT env) \<noteq> 2 then [read_error_line 0xCD] else []) @
     (if returned (rd_DUT_Status env) \<noteq> 2 then [read_error_line 0x79] else []) @
     [Stderr (report_line t (sample env s))]"
    by (simp only: poll_iteration_trace stderr_lines_append stderr_lines_pass_events
        failure_lines_eq append_assoc)
  have stale: "k < 8 \<and> stored_bytes env ! k = [] \<longrightarrow> raw_at (Suc k) env = raw_at k env"
    using raw_at_stale [of k env] by blast
  have loops: "open_result se = 0 \<and> configure_result se = 0 \<longrightarrow> fst (main t se envs s) = None"
    using main_polls [of se t envs s] by simp
  show ?thesis
    using reads lines poll_iteration_raw [of t env s] raw_at_0 [of env] stale
      register_reads_polling [of t envs s] loops
    by (simp only: simp_thms)
qed

theorem eight_reads_failures_logged_witness:
  "raw_at (Suc 1) (all_failed_env None) = raw_at 1 (all_failed_env None)
   \<and> fst (main TiesToEven good_startup [all_failed_env None] zero_state) = None"
proof -
  have stale: "(1 :: nat) < 8 \<and> stored_bytes (all_failed_env None) ! 1 = []"
    by (simp add: stored_bytes_def all_failed_env_def reply_failed_def)
  have good: "open_result good_startup = 0 \<and> configure_result good_startup = 0"
    by (simp add: good_startup_def)
  show ?thesis
    using eight_reads_failures_logged [of TiesToEven "all_failed_env None" zero_state 1
      "[all_failed_env None]" good_startup] stale good
    by blast
qed

text \<open>
  C7. When \<^verbatim>\<open>SMBus_Open\<close> or \<^verbatim>\<open>SMBus_Configure\<close> fails, \<^verbatim>\<open>main\<close> writes the error line,
  closes the device, prompts and waits for a key (in that order: the device is closed
  before the prompt), and returns -1. The loop is never entered: no register is read and
  the log file is not touched.
\<close>

theorem open_or_configure_failure_exits:
  "(open_result se \<noteq> 0 \<longrightarrow>
      main t se envs s =
        (Some (- 1), s\<lparr>trace := trace s @ [SMBus_Open_call,
           Stderr (CRLF @ ''ERROR: Could not open device.'' @ CRLF), SMBus_Close_call,
           Stderr ''Enter to exit...'', Getchar_call]\<rparr>))
   \<and> (open_result se = 0 \<and> configure_result se \<noteq> 0 \<longrightarrow>
      main t se envs s =
        (Some (- 1), s\<lparr>trace := trace s @ [SMBus_Open_call,
           Stderr (CRLF @ ''Device successfully opened.'' @ CRLF), configure_call,
           Stderr (''ERROR: Could not configure device.'' @ CRLF), SMBus_Close_call,
           Stderr ''Enter to exit...'', Getchar_call]\<rparr>))
   \<and> (open_result se \<noteq> 0 \<or> configure_result se \<noteq> 0 \<longrightarrow>
      fst (main t se envs s) = Some (- 1)
      \<and> register_reads (trace (snd (main t se envs s))) = register_reads (trace s)
      \<and> file_events (trace (snd (main t se envs s))) = file_events (trace s)
      \<and> SMBus_Close_call \<in> set (trace (snd (main t se envs s)))
      \<and> Getchar_call \<in> set (trace (snd (main t se envs s))))"
proof -
  have a: "open_result se \<noteq> 0 \<longrightarrow>
      main t se envs s =
        (Some (- 1), s\<lparr>trace := trace s @ [SMBus_Open_call,
           Stderr (CRLF @ ''ERROR: Could not open device.'' @ CRLF), SMBus_Close_call,
           Stderr ''Enter to exit...'', Getchar_call]\<rparr>)"
    using main_open_fails [of se t envs s] by blast
  have b: "open_result se = 0 \<and> configure_result se \<noteq> 0 \<longrightarrow>
      main t se envs s =
        (Some (- 1), s\<lparr>trace := trace s @ [SMBus_Open_call,
           Stderr (CRLF @ ''Device successfully opened.'' @ CRLF), configure_call,
           Stderr (''ERROR: Could not configure device.'' @ CRLF), SMBus_Close_call,
           Stderr ''Enter to exit...'', Getchar_call]\<rparr>)"
    using main_configure_fails [of se t envs s] by blast
  have c: "fst (main t se envs s) = Some (- 1)
      \<and> register_reads (trace (snd (main t se envs s))) = register_reads (trace s)
      \<and> file_events (trace (snd (main t se envs s))) = file_events (trace s)
      \<and> SMBus_Close_call \<in> set (trace (snd (main t se envs s)))
      \<and> Getchar_call \<in> set (trace (snd (main t se envs s)))"
    if "open_result se \<noteq> 0 \<or> configure_result se \<noteq> 0"
  proof (cases "open_result se = 0")
    case True
    then have "configure_result se \<noteq> 0" using that by simp
    then show ?thesis
      by (simp add: main_configure_fails [OF True] register_reads_append register_reads_Cons
          file_events_append file_events_Cons configure_call_def)
  next
    case False
    then show ?thesis
      by (simp add: main_open_fails register_reads_append register_reads_Cons
          file_events_append file_events_Cons)
  qed
  show ?thesis
    using a b c by blast
qed

theorem open_or_configure_failure_exits_witness:
  "main TiesToEven (good_startup\<lparr>open_result := - 1\<rparr>) [end_to_end_env None] zero_state =
     (Some (- 1), zero_state\<lparr>trace := trace zero_state @ [SMBus_Open_call,
        Stderr (CRLF @ ''ERROR: Could not open device.'' @ CRLF), SMBus_Close_call,
        Stderr ''Enter to exit...'', Getchar_call]\<rparr>)
   \<and> main TiesToEven (good_startup\<lparr>configure_result := - 1\<rparr>) [end_to_end_env None] zero_state =
     (Some (- 1), zero_state\<lparr>trace := trace zero_state @ [SMBus_Open_call,
        Stderr (CRLF @ ''Device successfully opened.'' @ CRLF), configure_call,
        Stderr (''ERROR: Could not configure device.'' @ CRLF), SMBus_Close_call,
        Stderr ''Enter to exit...'', Getchar_call]\<rparr>)
   \<and> file_events (trace (snd (main TiesToEven (good_startup\<lparr>open_result := - 1\<rparr>)
        [end_to_end_env None] zero_state))) = file_events (trace zero_state)
   \<and> register_reads (trace (snd (main TiesToEven (good_startup\<lparr>configure_result := - 1\<rparr>)
        [end_to_end_env None] zero_state))) = register_reads (trace zero_state)"
proof -
  have no_open: "open_result (good_startup\<lparr>open_result := - 1\<rparr>) \<noteq> 0"
    by simp
  have no_configure: "open_result (good_startup\<lparr>configure_result := - 1\<rparr>) = 0
      \<and> configure_result (good_startup\<lparr>configure_result := - 1\<rparr>) \<noteq> 0"
    by (simp add: good_startup_def)
  show ?thesis
    using open_or_configure_failure_exits [of "good_startup\<lparr>open_result := - 1\<rparr>" TiesToEven
        "[end_to_end_env None]" zero_state]
      open_or_configure_failure_exits [of "good_startup\<lparr>configure_result := - 1\<rparr>" TiesToEven
        "[end_to_end_env None]" zero_state]
      no_open no_configure
    by blast
qed

lemma telemetry_record_poll_iteration:
  "telemetry_record (poll_iteration t env s) =
     (decode_voltage_or_current (raw_at 3 env), decode_voltage_or_current (raw_at 4 env),
      decode_voltage_or_current (raw_at 6 env), decode_voltage_or_current (raw_at 5 env),
      decode_temperature (raw_at 1 env), decode_temperature (raw_at 2 env),
      raw_at 7 env, raw_at 8 env)"
  by (simp only: telemetry_record_def poll_iteration_raw poll_iteration_value)

lemma raw_at_1_stale: "stored (rd_temperature1 env) = [] \<Longrightarrow> raw_at 1 env = 0"
  using raw_at_stale [of 0 env] raw_at_0 [of env] by (simp add: stored_bytes_def)

text \<open>
  C9. Every pass starts by setting \<^verbatim>\<open>buffer[0]\<close> and \<^verbatim>\<open>buffer[1]\<close> to 0. So the record
  and the row of a pass do not depend on the state the pass before left, and a first read
  that fails and stores nothing decodes the raw value 0, that is -40 degrees: stale bytes
  can only come from an earlier read of the same pass.
\<close>

theorem buffer_reset_each_pass:
  "buffer (reset_buffer s) 0 = 0 \<and> buffer (reset_buffer s) 1 = 0
   \<and> sample env s = sample env (reset_buffer s)
   \<and> telemetry_record (poll_iteration t env s) = telemetry_record (poll_iteration t env s')
   \<and> csv_row t (sample env s) = csv_row t (sample env s')
   \<and> (stored (rd_temperature1 env) = [] \<longrightarrow>
        temperature1_raw (poll_iteration t env s) = 0 \<and>
        temperature1_C (poll_iteration t env s) = - 40)"
proof -
  have zero: "buffer (reset_buffer s) 0 = 0 \<and> buffer (reset_buffer s) 1 = 0"
    by (simp add: reset_buffer_def)
  have idem: "reset_buffer (reset_buffer s) = reset_buffer s"
    by (simp add: reset_buffer_def)
  have first: "sample env s = sample env (reset_buffer s)"
    by (simp only: sample_def idem)
  have same: "telemetry_record (poll_iteration t env s) = telemetry_record (poll_iteration t env s')"
    by (simp only: telemetry_record_poll_iteration)
  have stale: "temperature1_raw (poll_iteration t env s) = 0 \<and>
      temperature1_C (poll_iteration t env s) = - 40"
    if "stored (rd_temperature1 env) = []"
    using raw_at_1_stale [OF that]
    by (simp add: poll_iteration_raw poll_iteration_value decode_temperature_def
        float_of_INT16_def)
  show ?thesis
    using zero first same csv_row_sample [of t env s s'] stale by blast
qed

theorem buffer_reset_each_pass_witness:
  "temperature1_raw (poll_iteration TiesToEven (all_failed_env None)
      (poll_iteration TiesToEven (end_to_end_env None) zero_state)) = 0
   \<and> temperature1_C (poll_iteration TiesToEven (all_failed_env None)
      (poll_iteration TiesToEven (end_to_end_env None) zero_state)) = - 40"
  using buffer_reset_each_pass [of "poll_iteration TiesToEven (end_to_end_env None) zero_state"
      "all_failed_env None" TiesToEven zero_state]
  by (simp add: all_failed_env_def reply_failed_def)

lemma sample_fopen_result: "sample (env\<lparr>fopen_result := fp\<rparr>) s = sample env s"
  by (simp add: sample_def)

text \<open>
  C10. In every pass the value that \<^verbatim>\<open>fopen\<close> returns goes to the \<^verbatim>\<open>fprintf\<close> of the
  header (in the first pass), to the \<^verbatim>\<open>fprintf\<close> of the row and to \<^verbatim>\<open>fclose\<close> with no test
  in between: the same calls are made when it is a null pointer.
\<close>

theorem fopen_result_unchecked:
  "file_events (trace (poll_iteration t (env\<lparr>fopen_result := fp\<rparr>) s)) =
     file_events (trace s) @
     [Fopen_call ''outputA.csv'' ''a'' fp] @
     (if first_timeA s = 0 then [Fprintf_call fp csv_header] else []) @
     [Fprintf_call fp (csv_row t (sample env s)), Fclose_call fp]
   \<and> file_events (trace (poll_iteration t (env\<lparr>fopen_result := None\<rparr>) s)) =
     file_events (trace s) @
     [Fopen_call ''outputA.csv'' ''a'' None] @
     (if first_timeA s = 0 then [Fprintf_call None csv_header] else []) @
     [Fprintf_call None (csv_row t (sample env s)), Fclose_call None]"
  by (simp add: file_events_poll_iteration sample_fopen_result)

end
